theory Spec2Isabelle
  imports Complex_Main
begin

section \<open>Trial balance ratio dashboard: data model\<close>

text \<open>
  The development follows \<^verbatim>\<open>app.py\<close>. A trial balance is a pandas DataFrame with the
  columns \<^verbatim>\<open>code\<close>, \<^verbatim>\<open>name\<close>, \<^verbatim>\<open>debit\<close>, \<^verbatim>\<open>credit\<close> and \<^verbatim>\<open>balance\<close>; it is modelled as the
  list of its rows, in index order. A row is polymorphic in two types: \<open>'ch\<close>, the
  characters of a Python string (Unicode code points; a \<open>string\<close> of this theory is a
  text of ASCII characters), and \<open>'a\<close>, the numbers.

  Amounts are Python floats in the source. Where a result does not depend on rounding
  they are modelled as exact rationals (\<open>frame\<close>): every amount is finite and the
  arithmetic does not round, so NaN, the infinities and rounding error are outside that
  model. The tests \<^verbatim>\<open>if net_sales\<close>, \<^verbatim>\<open>if current_liabilities\<close> and \<^verbatim>\<open>if cogs\<close> of the
  engine look at a computed float, and there rounding decides; for them the engine is
  stated a second time, over any number type and any arithmetic.
\<close>

record ('ch, 'a) account =
  code :: int
  name :: "'ch list"
  debit :: 'a
  credit :: 'a
  balance :: 'a

type_synonym 'ch frame = "('ch, rat) account list"

text \<open>
  Exceptions are values. \<^verbatim>\<open>ValueError\<close> is what \<^verbatim>\<open>normalise_tb_columns\<close> raises itself
  and what the integer cast raises on a missing value (the spec calls both
  \<^verbatim>\<open>SchemaError\<close>), \<^verbatim>\<open>OverflowError\<close> is the integer cast on a digit run beyond the
  64-bit range, \<^verbatim>\<open>ZeroDivisionError\<close> is a division by
  zero.
\<close>

datatype error = ValueError | OverflowError | ZeroDivisionError

text \<open>
  Statements run in sequence: an exception in one ends the call, otherwise its value is
  passed on.
\<close>

definition and_then :: "error + 'a \<Rightarrow> ('a \<Rightarrow> error + 'b) \<Rightarrow> error + 'b" where
  "and_then m f = (case m of Inl e \<Rightarrow> Inl e | Inr v \<Rightarrow> f v)"

text \<open>
  \<^verbatim>\<open>pd.DataFrame\<close> assembled from its five columns. The columns of one frame have one
  length; the rows are read off position by position.
\<close>

fun data_frame ::
  "int list \<Rightarrow> 'ch list list \<Rightarrow> rat list \<Rightarrow> rat list \<Rightarrow> rat list \<Rightarrow> 'ch frame" where
  "data_frame (c # cs) (n # ns) (d # ds) (k # ks) (b # bs) =
     \<lparr>code = c, name = n, debit = d, credit = k, balance = b\<rparr> # data_frame cs ns ds ks bs"
| "data_frame _ _ _ _ _ = []"

text \<open>Elementwise subtraction of two columns: \<^verbatim>\<open>df["debit"] - df["credit"]\<close>.\<close>

definition column_sub :: "rat list \<Rightarrow> rat list \<Rightarrow> rat list" where
  "column_sub ds ks = map (\<lambda>(d, k). d - k) (zip ds ks)"

section \<open>The demo dataset\<close>

definition data :: "(int \<times> string \<times> rat \<times> rat) list" where
  "data = [
     (21,   ''Plant/Machinery Depreciation'',            515.00,    0.00),
     (51,   ''Motor Vehicles Depreciation'',             757.44,    0.00),
     (1100, ''Debtors Control Account'',              89731.16,    0.00),
     (1103, ''Prepayments'',                            1350.00,    0.00),
     (1200, ''Bank Current Account'',                   3389.99,    0.00),
     (1210, ''Bank Deposit Account'',                   2000.00,    0.00),
     (1220, ''Building Society Account'',                505.03,    0.00),
     (1230, ''Petty Cash'',                              833.48,    0.00),
     (1240, ''Company Credit Card'',                       0.00, 10414.97),
     (2100, ''Creditors Control Account'',                 0.00, 36572.97),
     (2109, ''Accruals'',                                  0.00,    50.00),
     (2200, ''Sales Tax Control Account'',                 0.00, 22152.44),
     (2201, ''Purchase Tax Control Account'',              0.00, 11102.51),
     (2202, ''VAT Liability'',                             0.00, 14800.35),
     (2210, ''P.A.Y.E.'',                                  0.00,  2070.23),
     (2211, ''National Insurance'',                        0.00,  1003.49),
     (2220, ''Net Wages'',                                 0.00,     0.00),
     (2230, ''Pension Fund'',                              0.00,    80.00),
     (2300, ''Loans'',                                     0.00,   605.00),
     (2310, ''Hire Purchase'',                             0.00,  1800.00),
     (4000, ''Sales North'',                               0.00, 179507.53),
     (4001, ''Sales South'',                               0.00,   1230.00),
     (4002, ''Sales Scotland'',                            0.00,   8472.51),
     (4009, ''Discounts Allowed'',                         50.00,     0.00),
     (4900, ''Miscellaneous Income'',                      0.00,    60.03),
     (4905, ''Distribution and Carriage'',                870.00,     0.00),
     (5000, ''Materials Purchased'',                     45446.48,    0.00),
     (5001, ''Materials Imported'',                      23733.00,    0.00),
     (5002, ''Miscellaneous Purchases'',                 1158.53,     0.00),
     (5100, ''Carriage'',                                   1.26,     0.00),
     (6200, ''Sales Promotions'',                          50.00,     0.00),
     (6201, ''Advertising'',                              465.00,     0.00),
     (6202, ''Gifts and Samples'',                         15.00,     0.00),
     (6203, ''P.R. (Literature & Brochures)'',           1050.00,     0.00),
     (7000, ''Gross Wages'',                            24372.11,    0.00),
     (7006, ''Employers N.I.'',                          2495.43,    0.00),
     (7009, ''Adjustments'',                              170.00,    0.00),
     (7010, ''SSP Reclaimed'',                              0.00,    30.00),
     (7011, ''SMP Reclaimed'',                              0.00,    48.40),
     (7100, ''Rent'',                                   15750.00,     0.00),
     (7200, ''Electricity'',                               952.00,   0.00),
     (7300, ''Fuel and Oil'',                               15.00,   0.00),
     (7301, ''Repairs and Servicing'',                      88.18,   0.00),
     (7304, ''Miscellaneous Motor Expenses'',               67.00,   0.00),
     (7350, ''Scale Charges'',                              60.18,   0.00),
     (7400, ''Travelling'',                                201.00,   0.00),
     (7401, ''Car Hire'',                                  150.00,   0.00),
     (7402, ''Hotels'',                                    720.00,   0.00),
     (7403, ''U.K. Entertainment'',                          5.50,   0.00),
     (7500, ''Printing'',                                   51.60,   0.00),
     (7501, ''Postage and Carriage'',                        3.50,   0.00),
     (7502, ''Telephone'',                                 128.72,   0.00),
     (7802, ''Laundry'',                                    50.00,   0.00),
     (7901, ''Bank Charges'',                                5.56,   0.00),
     (7903, ''Loan Interest Paid'',                         83.25,   0.00),
     (8003, ''Vehicle Depreciation'',                      757.44,   0.00),
     (8100, ''Bad Debt Write Off'',                          0.01,   0.00),
     (9999, ''Mispostings Account'',                       205.00,   0.00)
   ]"

text \<open>
  \<^verbatim>\<open>load_demo_trial_balance\<close>: the four columns are taken from the tuples and the
  \<^verbatim>\<open>balance\<close> column is added as \<^verbatim>\<open>df["debit"] - df["credit"]\<close>.
\<close>

definition load_demo_trial_balance :: "char frame" where
  "load_demo_trial_balance =
     (let codes = map (\<lambda>(c, n, d, k). c) data;
          names = map (\<lambda>(c, n, d, k). n) data;
          debits = map (\<lambda>(c, n, d, k). d) data;
          credits = map (\<lambda>(c, n, d, k). k) data
      in data_frame codes names debits credits (column_sub debits credits))"

section \<open>The normaliser\<close>

text \<open>
  An uploaded table is a DataFrame whose column labels are strings. Its cells are whatever
  \<^verbatim>\<open>read_csv\<close> or \<^verbatim>\<open>read_excel\<close> produced; \<^verbatim>\<open>normalise_tb_columns\<close> looks at a cell
  through two pandas conversions only, so a cell is given by what the two return for it:
  its text under \<^verbatim>\<open>astype(str)\<close>, and its value under
  \<^verbatim>\<open>pd.to_numeric(errors="coerce")\<close>, where \<open>None\<close> is the NaN of a cell that does not
  parse. The text is a list of characters of type \<open>'ch\<close>. A row maps each column label
  to its cell.
\<close>

record 'ch cell =
  as_str :: "'ch list"
  as_num :: "rat option"

record 'ch table =
  columns :: "string list"
  rows :: "(string \<Rightarrow> 'ch cell) list"

text \<open>\<^verbatim>\<open>df[c]\<close>: the cells of column \<open>c\<close>, top to bottom.\<close>

definition column :: "'ch table \<Rightarrow> string \<Rightarrow> 'ch cell list" where
  "column df c = map (\<lambda>r. r c) (rows df)"

text \<open>\<^verbatim>\<open>str.lower\<close>, on ASCII.\<close>

definition lower_char :: "char \<Rightarrow> char" where
  "lower_char c =
     (case map_of (zip ''ABCDEFGHIJKLMNOPQRSTUVWXYZ'' ''abcdefghijklmnopqrstuvwxyz'') c of
        Some d \<Rightarrow> d
      | None \<Rightarrow> c)"

definition lower :: "string \<Rightarrow> string" where
  "lower s = map lower_char s"

text \<open>\<^verbatim>\<open>keyword in s\<close>: the keyword occurs in \<open>s\<close> as a contiguous substring.\<close>

fun startswith :: "string \<Rightarrow> string \<Rightarrow> bool" where
  "startswith s [] = True"
| "startswith [] (k # ks) = False"
| "startswith (c # cs) (k # ks) = (c = k \<and> startswith cs ks)"

fun str_in :: "string \<Rightarrow> string \<Rightarrow> bool" where
  "str_in keyword [] = (keyword = [])"
| "str_in keyword (c # cs) = (startswith (c # cs) keyword \<or> str_in keyword cs)"

text \<open>
  \<^verbatim>\<open>find_col\<close>, a closure over \<^verbatim>\<open>df.columns\<close> in the source: the loop returns the first
  label whose lower-cased text contains the keyword, and \<^verbatim>\<open>None\<close> after the last one.
\<close>

fun find_col :: "string list \<Rightarrow> string \<Rightarrow> string option" where
  "find_col [] keyword = None"
| "find_col (c # cs) keyword =
     (if str_in keyword (lower c) then Some c else find_col cs keyword)"

text \<open>
  \<^verbatim>\<open>a or b\<close> on the results of \<^verbatim>\<open>find_col\<close>: \<open>a\<close> when it is true, that is neither
  \<^verbatim>\<open>None\<close> nor the empty string, and \<open>b\<close> otherwise.
\<close>

definition py_or :: "string option \<Rightarrow> string option \<Rightarrow> string option" where
  "py_or a b = (case a of None \<Rightarrow> b | Some s \<Rightarrow> if s = [] then b else Some s)"

text \<open>
  Decimal digits. The pattern of \<^verbatim>\<open>str.extract\<close> and Python's \<^verbatim>\<open>int\<close> take every
  Unicode decimal digit, not the ten ASCII digits only. Which characters are decimal
  digits, and the value of each, is Unicode's table and no part of the repository; it is
  the parameter \<open>dec\<close>, which gives the value of a decimal digit and \<open>None\<close> for any
  other character.
\<close>

definition is_digit :: "('ch \<Rightarrow> nat option) \<Rightarrow> 'ch \<Rightarrow> bool" where
  "is_digit dec c = (dec c \<noteq> None)"

text \<open>
  \<^verbatim>\<open>.str.extract(...)[0]\<close> with the pattern of one group, one or more decimal digits:
  the leftmost match, which is the first maximal run of digits; \<open>None\<close> is the NaN of a
  text without a digit.
\<close>

definition str_extract :: "('ch \<Rightarrow> nat option) \<Rightarrow> 'ch list \<Rightarrow> 'ch list option" where
  "str_extract dec s =
     (let t = dropWhile (\<lambda>c. \<not> is_digit dec c) s
      in if t = [] then None else Some (takeWhile (is_digit dec) t))"

text \<open>The integer that a string of digits denotes.\<close>

definition digit_value :: "('ch \<Rightarrow> nat option) \<Rightarrow> 'ch \<Rightarrow> int" where
  "digit_value dec c = (case dec c of Some v \<Rightarrow> int v | None \<Rightarrow> 0)"

definition int_of_digits :: "('ch \<Rightarrow> nat option) \<Rightarrow> 'ch list \<Rightarrow> int" where
  "int_of_digits dec s = foldl (\<lambda>a c. 10 * a + digit_value dec c) 0 s"

text \<open>
  \<^verbatim>\<open>.astype(int)\<close> on the extracted column. A NaN anywhere in the column raises
  \<^verbatim>\<open>ValueError\<close>, whatever the other elements are; in a column without NaN, a number above
  the largest 64-bit signed integer raises \<^verbatim>\<open>OverflowError\<close>; otherwise every element is
  converted.
\<close>

definition int64_max :: int where
  "int64_max = 2 ^ 63 - 1"

definition astype_int :: "('ch \<Rightarrow> nat option) \<Rightarrow> 'ch list option list \<Rightarrow> error + int list" where
  "astype_int dec xs =
     (if None \<in> set xs then Inl ValueError
      else if list_ex (\<lambda>x. case x of None \<Rightarrow> False
                                     | Some s \<Rightarrow> int64_max < int_of_digits dec s) xs
           then Inl OverflowError
      else Inr (map (\<lambda>x. case x of None \<Rightarrow> 0 | Some s \<Rightarrow> int_of_digits dec s) xs))"

text \<open>\<^verbatim>\<open>pd.to_numeric(col, errors="coerce").fillna(0.0)\<close>.\<close>

definition to_numeric_fillna :: "'ch cell list \<Rightarrow> rat list" where
  "to_numeric_fillna col = map (\<lambda>c. case as_num c of None \<Rightarrow> 0 | Some v \<Rightarrow> v) col"

text \<open>
  The four labels that \<^verbatim>\<open>normalise_tb_columns\<close> looks for: its local variables
  \<^verbatim>\<open>code_col\<close>, \<^verbatim>\<open>name_col\<close>, \<^verbatim>\<open>debit_col\<close> and \<^verbatim>\<open>credit_col\<close>.
\<close>

definition code_col :: "'ch table \<Rightarrow> string option" where
  "code_col df =
     py_or (py_or (find_col (columns df) ''code'') (find_col (columns df) ''n/c''))
       (find_col (columns df) ''nominal'')"

definition name_col :: "'ch table \<Rightarrow> string option" where
  "name_col df = find_col (columns df) ''name''"

definition debit_col :: "'ch table \<Rightarrow> string option" where
  "debit_col df = find_col (columns df) ''debit''"

definition credit_col :: "'ch table \<Rightarrow> string option" where
  "credit_col df = find_col (columns df) ''credit''"

text \<open>
  \<^verbatim>\<open>normalise_tb_columns\<close>. The dictionary \<^verbatim>\<open>cols_lower\<close> of the source is never read and
  is left out. After the check of \<^verbatim>\<open>missing\<close> the four labels are present, so the last
  branch of the case is never taken.
\<close>

definition normalise_tb_columns ::
  "('ch \<Rightarrow> nat option) \<Rightarrow> 'ch table \<Rightarrow> error + 'ch frame" where
  "normalise_tb_columns dec df =
     (let missing = filter (\<lambda>x. x = None) [code_col df, name_col df, debit_col df, credit_col df]
      in if missing \<noteq> [] then Inl ValueError
         else (case (code_col df, name_col df, debit_col df, credit_col df) of
                 (Some cc, Some nc, Some dc, Some kc) \<Rightarrow>
                   and_then (astype_int dec (map (\<lambda>c. str_extract dec (as_str c)) (column df cc)))
                     (\<lambda>codes.
                        let names = map as_str (column df nc);
                            debits = to_numeric_fillna (column df dc);
                            credits = to_numeric_fillna (column df kc)
                        in Inr (data_frame codes names debits credits
                                  (column_sub debits credits)))
               | _ \<Rightarrow> Inl ValueError))"

section \<open>The ratio engine\<close>

text \<open>
  \<^verbatim>\<open>df[df["code"].isin(codes)]["balance"].sum()\<close> and, for a single code,
  \<^verbatim>\<open>df[df["code"] == c]["balance"].sum()\<close> (the closure \<^verbatim>\<open>bal\<close> of the source): the
  balances of the selected rows are added up, and the sum over no row is 0.
\<close>

definition isin_sum :: "'ch frame \<Rightarrow> int list \<Rightarrow> rat" where
  "isin_sum df codes = sum_list (map balance (filter (\<lambda>r. code r \<in> set codes) df))"

definition bal :: "'ch frame \<Rightarrow> int \<Rightarrow> rat" where
  "bal df c = sum_list (map balance (filter (\<lambda>r. code r = c) df))"

text \<open>The code lists of the source, and each local variable of \<^verbatim>\<open>calculate_ratios\<close>.\<close>

definition sales_codes :: "int list" where
  "sales_codes = [4000, 4001, 4002]"

definition cogs_codes :: "int list" where
  "cogs_codes = [5000, 5001, 5002, 5100]"

definition expense_codes :: "int list" where
  "expense_codes = [
     4905, 6200, 6201, 6202, 6203,
     7000, 7006, 7009,
     7100, 7200,
     7300, 7301, 7304,
     7350, 7400, 7401, 7402, 7403,
     7500, 7501, 7502,
     7802,
     7901,
     8003,
     8100]"

definition current_asset_codes :: "int list" where
  "current_asset_codes = [1100, 1103, 1200, 1210, 1220, 1230]"

definition current_liability_codes :: "int list" where
  "current_liability_codes = [2100, 2109, 2200, 2201, 2202, 2210, 2211, 2220, 2230, 1240]"

definition sales :: "'ch frame \<Rightarrow> rat" where
  "sales df = - isin_sum df sales_codes"

definition discounts :: "'ch frame \<Rightarrow> rat" where
  "discounts df = bal df 4009"

definition net_sales :: "'ch frame \<Rightarrow> rat" where
  "net_sales df = sales df - discounts df"

definition cogs :: "'ch frame \<Rightarrow> rat" where
  "cogs df = isin_sum df cogs_codes"

definition gross_profit :: "'ch frame \<Rightarrow> rat" where
  "gross_profit df = net_sales df - cogs df"

definition expenses :: "'ch frame \<Rightarrow> rat" where
  "expenses df = isin_sum df expense_codes"

definition ssp_smp_recovery :: "'ch frame \<Rightarrow> rat" where
  "ssp_smp_recovery df = - isin_sum df [7010, 7011]"

definition operating_expenses :: "'ch frame \<Rightarrow> rat" where
  "operating_expenses df = expenses df - ssp_smp_recovery df"

definition misc_income :: "'ch frame \<Rightarrow> rat" where
  "misc_income df = - bal df 4900"

definition operating_profit :: "'ch frame \<Rightarrow> rat" where
  "operating_profit df = gross_profit df - operating_expenses df + misc_income df"

definition finance_cost :: "'ch frame \<Rightarrow> rat" where
  "finance_cost df = bal df 7903"

definition profit_before_tax :: "'ch frame \<Rightarrow> rat" where
  "profit_before_tax df = operating_profit df - finance_cost df"

definition current_assets :: "'ch frame \<Rightarrow> rat" where
  "current_assets df = isin_sum df current_asset_codes"

definition current_liabilities :: "'ch frame \<Rightarrow> rat" where
  "current_liabilities df = - isin_sum df current_liability_codes"

definition working_capital :: "'ch frame \<Rightarrow> rat" where
  "working_capital df = current_assets df - current_liabilities df"

definition quick_assets :: "'ch frame \<Rightarrow> rat" where
  "quick_assets df = current_assets df - bal df 1103"

definition debtors :: "'ch frame \<Rightarrow> rat" where
  "debtors df = bal df 1100"

definition creditors :: "'ch frame \<Rightarrow> rat" where
  "creditors df = - bal df 2100"

text \<open>
  Division. The source guards each quotient with \<^verbatim>\<open>... if denominator else None\<close>; the
  model keeps the division fallible, so that the guard is what makes the engine return.
\<close>

definition truediv :: "rat \<Rightarrow> rat \<Rightarrow> error + rat" where
  "truediv a b = (if b = 0 then Inl ZeroDivisionError else Inr (a / b))"

text \<open>
  The seven guarded quotients. A number is true when it is not zero, and \<open>None\<close> is
  Python's \<^verbatim>\<open>None\<close>.
\<close>

definition gross_margin_pct :: "'ch frame \<Rightarrow> error + rat option" where
  "gross_margin_pct df =
     (if net_sales df \<noteq> 0
      then and_then (truediv (gross_profit df) (net_sales df)) (\<lambda>q. Inr (Some (q * 100)))
      else Inr None)"

definition operating_margin_pct :: "'ch frame \<Rightarrow> error + rat option" where
  "operating_margin_pct df =
     (if net_sales df \<noteq> 0
      then and_then (truediv (operating_profit df) (net_sales df)) (\<lambda>q. Inr (Some (q * 100)))
      else Inr None)"

definition net_margin_pct :: "'ch frame \<Rightarrow> error + rat option" where
  "net_margin_pct df =
     (if net_sales df \<noteq> 0
      then and_then (truediv (profit_before_tax df) (net_sales df)) (\<lambda>q. Inr (Some (q * 100)))
      else Inr None)"

definition current_ratio :: "'ch frame \<Rightarrow> error + rat option" where
  "current_ratio df =
     (if current_liabilities df \<noteq> 0
      then and_then (truediv (current_assets df) (current_liabilities df)) (\<lambda>q. Inr (Some q))
      else Inr None)"

definition quick_ratio :: "'ch frame \<Rightarrow> error + rat option" where
  "quick_ratio df =
     (if current_liabilities df \<noteq> 0
      then and_then (truediv (quick_assets df) (current_liabilities df)) (\<lambda>q. Inr (Some q))
      else Inr None)"

definition receivables_days :: "'ch frame \<Rightarrow> error + rat option" where
  "receivables_days df =
     (if net_sales df \<noteq> 0
      then and_then (truediv (debtors df) (net_sales df)) (\<lambda>q. Inr (Some (q * 365)))
      else Inr None)"

definition payables_days :: "'ch frame \<Rightarrow> error + rat option" where
  "payables_days df =
     (if cogs df \<noteq> 0
      then and_then (truediv (creditors df) (cogs df)) (\<lambda>q. Inr (Some (q * 365)))
      else Inr None)"

text \<open>
  The \<^verbatim>\<open>ratios\<close> dictionary, one field for each of its fourteen keys in the order of
  the source, and the \<^verbatim>\<open>breakdown\<close> frame as its list of (Category, Amount) rows.
\<close>

record 'a ratios =
  Net_sales :: 'a
  Gross_profit :: 'a
  Gross_margin :: "'a option"
  Operating_profit :: 'a
  Operating_margin :: "'a option"
  Profit_before_tax :: 'a
  Net_margin :: "'a option"
  Current_assets :: 'a
  Current_liabilities :: 'a
  Working_capital :: 'a
  Current_ratio :: "'a option"
  Quick_ratio :: "'a option"
  Receivables_days :: "'a option"
  Payables_days :: "'a option"

type_synonym 'a breakdown = "(string \<times> 'a) list"

definition breakdown_of :: "'ch frame \<Rightarrow> rat breakdown" where
  "breakdown_of df = [
     (''Net sales'', net_sales df),
     (''Cost of sales'', - cogs df),
     (''Gross profit'', gross_profit df),
     (''Operating expenses'', - operating_expenses df),
     (''Operating profit'', operating_profit df),
     (''Finance cost'', - finance_cost df),
     (''Profit before tax'', profit_before_tax df)]"

text \<open>
  \<^verbatim>\<open>calculate_ratios\<close>. The seven quotients are evaluated in the order of the source;
  the first one that raises ends the call.
\<close>

definition calculate_ratios :: "'ch frame \<Rightarrow> error + rat ratios \<times> rat breakdown" where
  "calculate_ratios df =
     and_then (gross_margin_pct df) (\<lambda>gm.
     and_then (operating_margin_pct df) (\<lambda>om.
     and_then (net_margin_pct df) (\<lambda>nm.
     and_then (current_ratio df) (\<lambda>cr.
     and_then (quick_ratio df) (\<lambda>qr.
     and_then (receivables_days df) (\<lambda>rd.
     and_then (payables_days df) (\<lambda>pd.
        Inr (\<lparr>Net_sales = net_sales df,
              Gross_profit = gross_profit df,
              Gross_margin = gm,
              Operating_profit = operating_profit df,
              Operating_margin = om,
              Profit_before_tax = profit_before_tax df,
              Net_margin = nm,
              Current_assets = current_assets df,
              Current_liabilities = current_liabilities df,
              Working_capital = working_capital df,
              Current_ratio = cr,
              Quick_ratio = qr,
              Receivables_days = rd,
              Payables_days = pd\<rparr>,
             breakdown_of df))))))))"

section \<open>The ratio engine over floating-point numbers\<close>

text \<open>
  \<^verbatim>\<open>calculate_ratios\<close> once more, line by line as above, with nothing assumed of the
  numbers. The arithmetic of the floats is a parameter: \<open>fsum\<close> is \<^verbatim>\<open>Series.sum\<close> on
  the selected balances, \<open>fneg\<close>, \<open>fadd\<close>, \<open>fsub\<close>, \<open>fmul\<close> and \<open>fdiv\<close> are the
  operators \<^verbatim>\<open>-x\<close>, \<^verbatim>\<open>+\<close>, \<^verbatim>\<open>-\<close>, \<^verbatim>\<open>*\<close> and \<^verbatim>\<open>/\<close>, \<open>fint\<close> turns the integer literals 100
  and 365 into floats, and \<open>is_zero x\<close> says that \<open>x\<close> compares equal to 0, which is when
  \<^verbatim>\<open>if x\<close> takes its else branch. The sums may round and need not be associative, so a
  record set whose exact balances cancel need not have computed net sales of 0.
\<close>

record 'a arith =
  fsum :: "'a list \<Rightarrow> 'a"
  fneg :: "'a \<Rightarrow> 'a"
  fadd :: "'a \<Rightarrow> 'a \<Rightarrow> 'a"
  fsub :: "'a \<Rightarrow> 'a \<Rightarrow> 'a"
  fmul :: "'a \<Rightarrow> 'a \<Rightarrow> 'a"
  fdiv :: "'a \<Rightarrow> 'a \<Rightarrow> 'a"
  fint :: "int \<Rightarrow> 'a"
  is_zero :: "'a \<Rightarrow> bool"

definition fp_isin_sum :: "'a arith \<Rightarrow> ('ch, 'a) account list \<Rightarrow> int list \<Rightarrow> 'a" where
  "fp_isin_sum A df codes = fsum A (map balance (filter (\<lambda>r. code r \<in> set codes) df))"

definition fp_bal :: "'a arith \<Rightarrow> ('ch, 'a) account list \<Rightarrow> int \<Rightarrow> 'a" where
  "fp_bal A df c = fsum A (map balance (filter (\<lambda>r. code r = c) df))"

definition fp_sales :: "'a arith \<Rightarrow> ('ch, 'a) account list \<Rightarrow> 'a" where
  "fp_sales A df = fneg A (fp_isin_sum A df sales_codes)"

definition fp_discounts :: "'a arith \<Rightarrow> ('ch, 'a) account list \<Rightarrow> 'a" where
  "fp_discounts A df = fp_bal A df 4009"

definition fp_net_sales :: "'a arith \<Rightarrow> ('ch, 'a) account list \<Rightarrow> 'a" where
  "fp_net_sales A df = fsub A (fp_sales A df) (fp_discounts A df)"

definition fp_cogs :: "'a arith \<Rightarrow> ('ch, 'a) account list \<Rightarrow> 'a" where
  "fp_cogs A df = fp_isin_sum A df cogs_codes"

definition fp_gross_profit :: "'a arith \<Rightarrow> ('ch, 'a) account list \<Rightarrow> 'a" where
  "fp_gross_profit A df = fsub A (fp_net_sales A df) (fp_cogs A df)"

definition fp_expenses :: "'a arith \<Rightarrow> ('ch, 'a) account list \<Rightarrow> 'a" where
  "fp_expenses A df = fp_isin_sum A df expense_codes"

definition fp_ssp_smp_recovery :: "'a arith \<Rightarrow> ('ch, 'a) account list \<Rightarrow> 'a" where
  "fp_ssp_smp_recovery A df = fneg A (fp_isin_sum A df [7010, 7011])"

definition fp_operating_expenses :: "'a arith \<Rightarrow> ('ch, 'a) account list \<Rightarrow> 'a" where
  "fp_operating_expenses A df = fsub A (fp_expenses A df) (fp_ssp_smp_recovery A df)"

definition fp_misc_income :: "'a arith \<Rightarrow> ('ch, 'a) account list \<Rightarrow> 'a" where
  "fp_misc_income A df = fneg A (fp_bal A df 4900)"

definition fp_operating_profit :: "'a arith \<Rightarrow> ('ch, 'a) account list \<Rightarrow> 'a" where
  "fp_operating_profit A df = fadd A (fsub A (fp_gross_profit A df) (fp_operating_expenses A df))
       (fp_misc_income A df)"

definition fp_finance_cost :: "'a arith \<Rightarrow> ('ch, 'a) account list \<Rightarrow> 'a" where
  "fp_finance_cost A df = fp_bal A df 7903"

definition fp_profit_before_tax :: "'a arith \<Rightarrow> ('ch, 'a) account list \<Rightarrow> 'a" where
  "fp_profit_before_tax A df = fsub A (fp_operating_profit A df) (fp_finance_cost A df)"

definition fp_current_assets :: "'a arith \<Rightarrow> ('ch, 'a) account list \<Rightarrow> 'a" where
  "fp_current_assets A df = fp_isin_sum A df current_asset_codes"

definition fp_current_liabilities :: "'a arith \<Rightarrow> ('ch, 'a) account list \<Rightarrow> 'a" where
  "fp_current_liabilities A df = fneg A (fp_isin_sum A df current_liability_codes)"

definition fp_working_capital :: "'a arith \<Rightarrow> ('ch, 'a) account list \<Rightarrow> 'a" where
  "fp_working_capital A df = fsub A (fp_current_assets A df) (fp_current_liabilities A df)"

definition fp_quick_assets :: "'a arith \<Rightarrow> ('ch, 'a) account list \<Rightarrow> 'a" where
  "fp_quick_assets A df = fsub A (fp_current_assets A df) (fp_bal A df 1103)"

definition fp_debtors :: "'a arith \<Rightarrow> ('ch, 'a) account list \<Rightarrow> 'a" where
  "fp_debtors A df = fp_bal A df 1100"

definition fp_creditors :: "'a arith \<Rightarrow> ('ch, 'a) account list \<Rightarrow> 'a" where
  "fp_creditors A df = fneg A (fp_bal A df 2100)"

definition fp_truediv :: "'a arith \<Rightarrow> 'a \<Rightarrow> 'a \<Rightarrow> error + 'a" where
  "fp_truediv A a b = (if is_zero A b then Inl ZeroDivisionError else Inr (fdiv A a b))"

definition fp_gross_margin_pct :: "'a arith \<Rightarrow> ('ch, 'a) account list \<Rightarrow> error + 'a option" where
  "fp_gross_margin_pct A df =
     (if \<not> is_zero A (fp_net_sales A df)
      then and_then (fp_truediv A (fp_gross_profit A df) (fp_net_sales A df)) (\<lambda>q. Inr (Some (fmul A q (fint A 100))))
      else Inr None)"

definition fp_operating_margin_pct :: "'a arith \<Rightarrow> ('ch, 'a) account list \<Rightarrow> error + 'a option" where
  "fp_operating_margin_pct A df =
     (if \<not> is_zero A (fp_net_sales A df)
      then and_then (fp_truediv A (fp_operating_profit A df) (fp_net_sales A df)) (\<lambda>q. Inr (Some (fmul A q (fint A 100))))
      else Inr None)"

definition fp_net_margin_pct :: "'a arith \<Rightarrow> ('ch, 'a) account list \<Rightarrow> error + 'a option" where
  "fp_net_margin_pct A df =
     (if \<not> is_zero A (fp_net_sales A df)
      then and_then (fp_truediv A (fp_profit_before_tax A df) (fp_net_sales A df)) (\<lambda>q. Inr (Some (fmul A q (fint A 100))))
      else Inr None)"

definition fp_current_ratio :: "'a arith \<Rightarrow> ('ch, 'a) account list \<Rightarrow> error + 'a option" where
  "fp_current_ratio A df =
     (if \<not> is_zero A (fp_current_liabilities A df)
      then and_then (fp_truediv A (fp_current_assets A df) (fp_current_liabilities A df)) (\<lambda>q. Inr (Some q))
      else Inr None)"

definition fp_quick_ratio :: "'a arith \<Rightarrow> ('ch, 'a) account list \<Rightarrow> error + 'a option" where
  "fp_quick_ratio A df =
     (if \<not> is_zero A (fp_current_liabilities A df)
      then and_then (fp_truediv A (fp_quick_assets A df) (fp_current_liabilities A df)) (\<lambda>q. Inr (Some q))
      else Inr None)"

definition fp_receivables_days :: "'a arith \<Rightarrow> ('ch, 'a) account list \<Rightarrow> error + 'a option" where
  "fp_receivables_days A df =
     (if \<not> is_zero A (fp_net_sales A df)
      then and_then (fp_truediv A (fp_debtors A df) (fp_net_sales A df)) (\<lambda>q. Inr (Some (fmul A q (fint A 365))))
      else Inr None)"

definition fp_payables_days :: "'a arith \<Rightarrow> ('ch, 'a) account list \<Rightarrow> error + 'a option" where
  "fp_payables_days A df =
     (if \<not> is_zero A (fp_cogs A df)
      then and_then (fp_truediv A (fp_creditors A df) (fp_cogs A df)) (\<lambda>q. Inr (Some (fmul A q (fint A 365))))
      else Inr None)"

definition fp_breakdown_of :: "'a arith \<Rightarrow> ('ch, 'a) account list \<Rightarrow> 'a breakdown" where
  "fp_breakdown_of A df = [
     (''Net sales'', fp_net_sales A df),
     (''Cost of sales'', fneg A (fp_cogs A df)),
     (''Gross profit'', fp_gross_profit A df),
     (''Operating expenses'', fneg A (fp_operating_expenses A df)),
     (''Operating profit'', fp_operating_profit A df),
     (''Finance cost'', fneg A (fp_finance_cost A df)),
     (''Profit before tax'', fp_profit_before_tax A df)]"

definition fp_calculate_ratios ::
  "'a arith \<Rightarrow> ('ch, 'a) account list \<Rightarrow> error + 'a ratios \<times> 'a breakdown" where
  "fp_calculate_ratios A df =
     and_then (fp_gross_margin_pct A df) (\<lambda>gm.
     and_then (fp_operating_margin_pct A df) (\<lambda>om.
     and_then (fp_net_margin_pct A df) (\<lambda>nm.
     and_then (fp_current_ratio A df) (\<lambda>cr.
     and_then (fp_quick_ratio A df) (\<lambda>qr.
     and_then (fp_receivables_days A df) (\<lambda>rd.
     and_then (fp_payables_days A df) (\<lambda>pd.
        Inr (\<lparr>Net_sales = fp_net_sales A df,
              Gross_profit = fp_gross_profit A df,
              Gross_margin = gm,
              Operating_profit = fp_operating_profit A df,
              Operating_margin = om,
              Profit_before_tax = fp_profit_before_tax A df,
              Net_margin = nm,
              Current_assets = fp_current_assets A df,
              Current_liabilities = fp_current_liabilities A df,
              Working_capital = fp_working_capital A df,
              Current_ratio = cr,
              Quick_ratio = qr,
              Receivables_days = rd,
              Payables_days = pd\<rparr>,
             fp_breakdown_of A df))))))))"

text \<open>The arithmetic of the exact model: rationals, nothing rounds.\<close>

definition exact :: "rat arith" where
  "exact = \<lparr>fsum = sum_list, fneg = uminus, fadd = (+), fsub = (-), fmul = (*),
            fdiv = (/), fint = of_int, is_zero = (\<lambda>x. x = 0)\<rparr>"

section \<open>Example uploads\<close>

text \<open>
  Tables used as concrete inputs below. \<open>row_of\<close> builds a row from its (label, cell)
  pairs. The first table has the four headings and no data row; the second has a code
  column found through the keyword \<^verbatim>\<open>code\<close> in its second label and cells that do not
  parse as numbers; the third has a code cell without a digit; the fourth has a code cell
  whose digits denote \<open>2 ^ 63\<close>; the fifth has that cell above a cell without a digit.
  Their texts are ASCII, and \<open>ascii_decimal\<close> is the table of decimal digits on ASCII.
  The last table has characters given by their code points and a code cell written in
  the full-width digits U+FF10 to U+FF19; \<open>fullwidth_decimal\<close> is the table of decimal
  digits on the ASCII and the full-width digits.
\<close>

definition ascii_decimal :: "char \<Rightarrow> nat option" where
  "ascii_decimal c = map_of (zip ''0123456789'' [0, 1, 2, 3, 4, 5, 6, 7, 8, 9]) c"

definition fullwidth_decimal :: "nat \<Rightarrow> nat option" where
  "fullwidth_decimal c =
     (if 48 \<le> c \<and> c \<le> 57 then Some (c - 48)
      else if 65296 \<le> c \<and> c \<le> 65305 then Some (c - 65296)
      else None)"

definition row_of :: "(string \<times> 'ch cell) list \<Rightarrow> 'ch list \<Rightarrow> string \<Rightarrow> 'ch cell" where
  "row_of kvs nan h =
     (case map_of kvs h of Some c \<Rightarrow> c | None \<Rightarrow> \<lparr>as_str = nan, as_num = None\<rparr>)"

definition upload_headings :: "char table" where
  "upload_headings = \<lparr>columns = [''N/C'', ''Name'', ''Debit'', ''Credit''], rows = []\<rparr>"

definition upload_lenient :: "char table" where
  "upload_lenient =
     \<lparr>columns = [''Account Name'', ''Nominal Code'', ''Debit'', ''Credit''],
      rows = [
        row_of [(''Account Name'', \<lparr>as_str = ''Sales North'', as_num = None\<rparr>),
                (''Nominal Code'', \<lparr>as_str = ''4000'', as_num = Some 4000\<rparr>),
                (''Debit'', \<lparr>as_str = ''n/a'', as_num = None\<rparr>),
                (''Credit'', \<lparr>as_str = ''1000.0'', as_num = Some 1000\<rparr>)] ''nan'',
        row_of [(''Account Name'', \<lparr>as_str = ''Rent'', as_num = None\<rparr>),
                (''Nominal Code'', \<lparr>as_str = ''N7100.0'', as_num = None\<rparr>),
                (''Debit'', \<lparr>as_str = ''15750.0'', as_num = Some 15750\<rparr>),
                (''Credit'', \<lparr>as_str = ''-'', as_num = None\<rparr>)] ''nan'']\<rparr>"



definition upload_long_code_then_no_digits :: "char table" where
  "upload_long_code_then_no_digits =
     \<lparr>columns = [''Code'', ''Name'', ''Debit'', ''Credit''],
      rows = [
        row_of [(''Code'', \<lparr>as_str = ''9223372036854775808'', as_num = Some 9223372036854775808\<rparr>),
                (''Name'', \<lparr>as_str = ''Sales North'', as_num = None\<rparr>),
                (''Debit'', \<lparr>as_str = ''0.0'', as_num = Some 0\<rparr>),
                (''Credit'', \<lparr>as_str = ''1000.0'', as_num = Some 1000\<rparr>)] ''nan'',
        row_of [(''Code'', \<lparr>as_str = ''Total'', as_num = None\<rparr>),
                (''Name'', \<lparr>as_str = ''nan'', as_num = None\<rparr>),
                (''Debit'', \<lparr>as_str = ''100.0'', as_num = Some 100\<rparr>),
                (''Credit'', \<lparr>as_str = ''100.0'', as_num = Some 100\<rparr>)] ''nan'']\<rparr>"

definition upload_fullwidth :: "nat table" where
  "upload_fullwidth =
     \<lparr>columns = [''Code'', ''Name'', ''Debit'', ''Credit''],
      rows = [
        row_of [(''Code'', \<lparr>as_str = [65300, 65296, 65296, 65296], as_num = Some 4000\<rparr>),
                (''Name'', \<lparr>as_str = [83, 97, 108, 101, 115], as_num = None\<rparr>),
                (''Debit'', \<lparr>as_str = [48], as_num = Some 0\<rparr>),
                (''Credit'', \<lparr>as_str = [49, 48, 48, 48], as_num = Some 1000\<rparr>)]
          [110, 97, 110]]\<rparr>"

section \<open>Properties of the ratio engine\<close>

lemmas code_lists = sales_codes_def cogs_codes_def expense_codes_def
  current_asset_codes_def current_liability_codes_def

lemmas figures = sales_def discounts_def net_sales_def cogs_def gross_profit_def
  expenses_def ssp_smp_recovery_def operating_expenses_def misc_income_def
  operating_profit_def finance_cost_def profit_before_tax_def current_assets_def
  current_liabilities_def working_capital_def quick_assets_def debtors_def creditors_def

lemmas quotients = gross_margin_pct_def operating_margin_pct_def net_margin_pct_def
  current_ratio_def quick_ratio_def receivables_days_def payables_days_def

lemma and_then_Inr: "and_then (Inr v) f = f v"
  by (simp add: and_then_def)

lemma guarded_scaled:
  "(if den \<noteq> 0 then and_then (truediv num den) (\<lambda>q. Inr (Some (q * k))) else Inr None)
     = Inr (if den = 0 then None else Some (num / den * k))"
  by (simp add: truediv_def and_then_Inr)

lemma guarded_plain:
  "(if den \<noteq> 0 then and_then (truediv num den) (\<lambda>q. Inr (Some q)) else Inr None)
     = Inr (if den = 0 then None else Some (num / den))"
  by (simp add: truediv_def and_then_Inr)

text \<open>
  Every quotient is reached with a denominator that is not zero, so the engine always
  returns, and what it returns has a closed form.
\<close>

lemma calculate_ratios_eq:
  "calculate_ratios df =
     Inr (\<lparr>Net_sales = net_sales df,
           Gross_profit = gross_profit df,
           Gross_margin = (if net_sales df = 0 then None
                           else Some (gross_profit df / net_sales df * 100)),
           Operating_profit = operating_profit df,
           Operating_margin = (if net_sales df = 0 then None
                               else Some (operating_profit df / net_sales df * 100)),
           Profit_before_tax = profit_before_tax df,
           Net_margin = (if net_sales df = 0 then None
                         else Some (profit_before_tax df / net_sales df * 100)),
           Current_assets = current_assets df,
           Current_liabilities = current_liabilities df,
           Working_capital = working_capital df,
           Current_ratio = (if current_liabilities df = 0 then None
                            else Some (current_assets df / current_liabilities df)),
           Quick_ratio = (if current_liabilities df = 0 then None
                          else Some (quick_assets df / current_liabilities df)),
           Receivables_days = (if net_sales df = 0 then None
                               else Some (debtors df / net_sales df * 365)),
           Payables_days = (if cogs df = 0 then None
                            else Some (creditors df / cogs df * 365))\<rparr>,
          breakdown_of df)"
  unfolding calculate_ratios_def quotients guarded_scaled guarded_plain and_then_Inr ..

subsection \<open>The demo trial balance\<close>

lemmas demo_unfold = load_demo_trial_balance_def data_def column_sub_def figures code_lists
  isin_sum_def bal_def

lemma demo_rows_length: "length load_demo_trial_balance = 58"
  by (simp add: load_demo_trial_balance_def data_def column_sub_def)

lemma demo_net_sales: "net_sales load_demo_trial_balance = 189160.04"
  by (simp add: demo_unfold)
lemma demo_cogs: "cogs load_demo_trial_balance = 70339.27"
  by (simp add: demo_unfold)
lemma demo_gross_profit: "gross_profit load_demo_trial_balance = 118820.77"
  by (simp add: gross_profit_def demo_net_sales demo_cogs)
lemma demo_operating_expenses: "operating_expenses load_demo_trial_balance = 48414.83"
  by (simp add: demo_unfold)
lemma demo_misc_income: "misc_income load_demo_trial_balance = 60.03"
  by (simp add: demo_unfold)
lemma demo_operating_profit: "operating_profit load_demo_trial_balance = 70465.97"
  by (simp add: operating_profit_def demo_gross_profit demo_operating_expenses demo_misc_income)
lemma demo_finance_cost: "finance_cost load_demo_trial_balance = 83.25"
  by (simp add: demo_unfold)
lemma demo_profit_before_tax: "profit_before_tax load_demo_trial_balance = 70382.72"
  by (simp add: profit_before_tax_def demo_operating_profit demo_finance_cost)
lemma demo_current_assets: "current_assets load_demo_trial_balance = 97809.66"
  by (simp add: demo_unfold)
lemma demo_current_liabilities: "current_liabilities load_demo_trial_balance = 98246.96"
  by (simp add: demo_unfold)
lemma demo_debtors: "debtors load_demo_trial_balance = 89731.16"
  by (simp add: demo_unfold)
lemma demo_creditors: "creditors load_demo_trial_balance = 36572.97"
  by (simp add: demo_unfold)

text \<open>
  C1 (as amended). On the 58 rows of the demo trial balance the engine returns; net sales
  are 189160.04, the sales of 189210.04 less the discounts allowed of 50.00; the current
  ratio is defined and lies strictly between 0 and 1 (97809.66 of current assets against
  98246.96 of current liabilities); receivables days and payables days are both defined
  and positive.
\<close>

theorem demo_figures:
  "\<exists>r b. calculate_ratios load_demo_trial_balance = Inr (r, b) \<and>
      length load_demo_trial_balance = 58 \<and>
      Net_sales r = 189160.04 \<and>
      Current_ratio r = Some (97809.66 / 98246.96) \<and>
      (0::rat) < 97809.66 / 98246.96 \<and> (97809.66 / 98246.96 :: rat) < 1 \<and>
      Receivables_days r = Some (89731.16 / 189160.04 * 365) \<and>
      (0::rat) < 89731.16 / 189160.04 * 365 \<and>
      Payables_days r = Some (36572.97 / 70339.27 * 365) \<and>
      (0::rat) < 36572.97 / 70339.27 * 365"
  by (simp add: calculate_ratios_eq demo_rows_length demo_net_sales demo_cogs
      demo_current_assets demo_current_liabilities demo_debtors demo_creditors)

text \<open>
  C1 as stated fails on the demo trial balance: net sales are 189160.04, which is 50.00
  away from 189210.04, and the current ratio is below 1.
\<close>

theorem demo_figures_counterexample:
  "isl (calculate_ratios load_demo_trial_balance) = False \<and>
   Net_sales (fst (projr (calculate_ratios load_demo_trial_balance))) = 189160.04 \<and>
   \<not> \<bar>(189160.04::rat) - 189210.04\<bar> < 0.01 \<and>
   Current_ratio (fst (projr (calculate_ratios load_demo_trial_balance)))
     = Some (97809.66 / 98246.96) \<and>
   \<not> (1::rat) < 97809.66 / 98246.96"
  by (simp add: calculate_ratios_eq demo_net_sales demo_current_assets demo_current_liabilities)

subsection \<open>The breakdown\<close>

text \<open>
  C2 (as amended). For every record set the engine returns a breakdown of seven rows in
  the order net sales, cost of sales, gross profit, operating expenses, operating profit,
  finance cost, profit before tax. Cost of sales, operating expenses and finance cost are
  stored negated. Net sales plus the cost of sales amount is gross profit; gross profit
  plus the operating expenses amount plus miscellaneous income, which has no row of its
  own, is operating profit; operating profit plus the finance cost amount is profit
  before tax.
\<close>

theorem breakdown_walk:
  "\<exists>r b. calculate_ratios df = Inr (r, b) \<and>
     map fst b = [''Net sales'', ''Cost of sales'', ''Gross profit'', ''Operating expenses'',
                  ''Operating profit'', ''Finance cost'', ''Profit before tax''] \<and>
     snd (b ! 0) = net_sales df \<and>
     snd (b ! 1) = - cogs df \<and>
     snd (b ! 2) = gross_profit df \<and>
     snd (b ! 3) = - operating_expenses df \<and>
     snd (b ! 4) = operating_profit df \<and>
     snd (b ! 5) = - finance_cost df \<and>
     snd (b ! 6) = profit_before_tax df \<and>
     snd (b ! 0) + snd (b ! 1) = snd (b ! 2) \<and>
     snd (b ! 2) + snd (b ! 3) + misc_income df = snd (b ! 4) \<and>
     snd (b ! 4) + snd (b ! 5) = snd (b ! 6)"
  by (simp add: calculate_ratios_eq breakdown_of_def gross_profit_def operating_profit_def
      profit_before_tax_def)

text \<open>
  C2 as stated fails on the demo trial balance: gross profit plus the operating expenses
  amount is 70405.94, and the operating profit row holds 70465.97, the miscellaneous
  income of 60.03 more.
\<close>

theorem breakdown_walk_counterexample:
  "snd (projr (calculate_ratios load_demo_trial_balance)) =
     [(''Net sales'', 189160.04), (''Cost of sales'', - 70339.27),
      (''Gross profit'', 118820.77), (''Operating expenses'', - 48414.83),
      (''Operating profit'', 70465.97), (''Finance cost'', - 83.25),
      (''Profit before tax'', 70382.72)] \<and>
   (118820.77::rat) + (- 48414.83) \<noteq> 70465.97"
  by (simp add: calculate_ratios_eq breakdown_of_def demo_net_sales demo_cogs demo_gross_profit
      demo_operating_expenses demo_operating_profit demo_finance_cost demo_profit_before_tax)

subsection \<open>Undefined ratios\<close>

text \<open>
  Over any arithmetic every quotient is reached with a denominator that is not zero, so
  the engine returns. On the exact arithmetic it is the engine of the exact model.
\<close>

lemmas fp_figures = fp_sales_def fp_discounts_def fp_net_sales_def fp_cogs_def
  fp_gross_profit_def fp_expenses_def fp_ssp_smp_recovery_def fp_operating_expenses_def
  fp_misc_income_def fp_operating_profit_def fp_finance_cost_def fp_profit_before_tax_def
  fp_current_assets_def fp_current_liabilities_def fp_working_capital_def fp_quick_assets_def
  fp_debtors_def fp_creditors_def

lemmas fp_quotients = fp_gross_margin_pct_def fp_operating_margin_pct_def
  fp_net_margin_pct_def fp_current_ratio_def fp_quick_ratio_def fp_receivables_days_def
  fp_payables_days_def

lemma fp_guarded:
  "(if \<not> is_zero A den then and_then (fp_truediv A num den) (\<lambda>q. Inr (Some (f q)))
    else Inr None)
     = Inr (if is_zero A den then None else Some (f (fdiv A num den)))"
  by (simp add: fp_truediv_def and_then_Inr)

lemma fp_calculate_ratios_eq:
  "fp_calculate_ratios A df =
     Inr (\<lparr>Net_sales = fp_net_sales A df,
           Gross_profit = fp_gross_profit A df,
           Gross_margin = (if is_zero A (fp_net_sales A df) then None
              else Some (fmul A (fdiv A (fp_gross_profit A df) (fp_net_sales A df))
                           (fint A 100))),
           Operating_profit = fp_operating_profit A df,
           Operating_margin = (if is_zero A (fp_net_sales A df) then None
              else Some (fmul A (fdiv A (fp_operating_profit A df) (fp_net_sales A df))
                           (fint A 100))),
           Profit_before_tax = fp_profit_before_tax A df,
           Net_margin = (if is_zero A (fp_net_sales A df) then None
              else Some (fmul A (fdiv A (fp_profit_before_tax A df) (fp_net_sales A df))
                           (fint A 100))),
           Current_assets = fp_current_assets A df,
           Current_liabilities = fp_current_liabilities A df,
           Working_capital = fp_working_capital A df,
           Current_ratio = (if is_zero A (fp_current_liabilities A df) then None
              else Some (fdiv A (fp_current_assets A df) (fp_current_liabilities A df))),
           Quick_ratio = (if is_zero A (fp_current_liabilities A df) then None
              else Some (fdiv A (fp_quick_assets A df) (fp_current_liabilities A df))),
           Receivables_days = (if is_zero A (fp_net_sales A df) then None
              else Some (fmul A (fdiv A (fp_debtors A df) (fp_net_sales A df)) (fint A 365))),
           Payables_days = (if is_zero A (fp_cogs A df) then None
              else Some (fmul A (fdiv A (fp_creditors A df) (fp_cogs A df)) (fint A 365)))\<rparr>,
          fp_breakdown_of A df)"
  unfolding fp_calculate_ratios_def fp_quotients
    fp_guarded [where f = "\<lambda>q. fmul A q (fint A 100)"]
    fp_guarded [where f = "\<lambda>q. fmul A q (fint A 365)"]
    fp_guarded [where f = "\<lambda>q. q"] and_then_Inr ..

lemma fp_exact_sums:
  "fp_isin_sum exact df codes = isin_sum df codes" "fp_bal exact df c = bal df c"
  by (simp_all add: fp_isin_sum_def fp_bal_def isin_sum_def bal_def exact_def)

lemma fp_calculate_ratios_exact: "fp_calculate_ratios exact df = calculate_ratios df"
  unfolding fp_calculate_ratios_eq calculate_ratios_eq fp_breakdown_of_def breakdown_of_def
    fp_figures figures fp_exact_sums
  by (simp add: exact_def)

text \<open>
  When no row carries a revenue code or the discount code, the computed net sales are
  minus the empty sum less the empty sum, whatever the other rows hold; in floating-point
  arithmetic that is a zero.
\<close>

lemma fp_net_sales_no_revenue:
  assumes "\<forall>r \<in> set df. code r \<notin> set sales_codes \<and> code r \<noteq> 4009"
  shows "fp_net_sales A df = fsub A (fneg A (fsum A [])) (fsum A [])"
proof -
  have "filter (\<lambda>r. code r \<in> set sales_codes) df = []"
    and "filter (\<lambda>r. code r = 4009) df = []"
    using assms by (simp_all add: filter_empty_conv)
  then show ?thesis
    by (simp add: fp_net_sales_def fp_sales_def fp_discounts_def fp_isin_sum_def fp_bal_def)
qed

text \<open>
  C3. Whatever the floating-point arithmetic does: when the net sales that the engine
  computed are 0 the engine raises nothing, and gross margin, operating margin, net margin
  and receivables days are each \<open>None\<close>, which is no number, the number 0 included.
\<close>

theorem zero_net_sales_undefined:
  "is_zero A (fp_net_sales A df) \<Longrightarrow>
     \<exists>r b. fp_calculate_ratios A df = Inr (r, b) \<and>
       Gross_margin r = None \<and> Operating_margin r = None \<and>
       Net_margin r = None \<and> Receivables_days r = None \<and>
       Gross_margin r \<noteq> Some (fint A 0) \<and> Operating_margin r \<noteq> Some (fint A 0) \<and>
       Net_margin r \<noteq> Some (fint A 0) \<and> Receivables_days r \<noteq> Some (fint A 0)"
  by (simp add: fp_calculate_ratios_eq)

text \<open>
  A trial balance of one purchases row, on the exact arithmetic: no row carries a revenue
  or discount code, and the computed net sales are 0.
\<close>

theorem zero_net_sales_undefined_witness:
  "is_zero exact
     (fp_net_sales exact [\<lparr>code = 5000, name = ''Materials Purchased'', debit = 45446.48,
                           credit = 0, balance = 45446.48\<rparr>]) \<and>
   (\<exists>r b. fp_calculate_ratios exact
             [\<lparr>code = 5000, name = ''Materials Purchased'', debit = 45446.48,
               credit = 0, balance = 45446.48\<rparr>] = Inr (r, b) \<and>
       Gross_margin r = None \<and> Operating_margin r = None \<and>
       Net_margin r = None \<and> Receivables_days r = None \<and>
       Gross_margin r \<noteq> Some (fint exact 0) \<and> Operating_margin r \<noteq> Some (fint exact 0) \<and>
       Net_margin r \<noteq> Some (fint exact 0) \<and> Receivables_days r \<noteq> Some (fint exact 0))"
proof -
  have h: "is_zero exact
     (fp_net_sales exact [\<lparr>code = 5000, name = ''Materials Purchased'', debit = 45446.48,
                           credit = 0, balance = 45446.48\<rparr>])"
    by (simp add: fp_net_sales_def fp_sales_def fp_discounts_def fp_isin_sum_def fp_bal_def
        sales_codes_def exact_def)
  show ?thesis
    using h zero_net_sales_undefined [OF h] by simp
qed

subsection \<open>Sign convention\<close>

text \<open>
  C8. For the single revenue row with code 4000, debit 0 and credit 1000, whose balance
  is \<open>0 - 1000\<close>, the engine computes sales of +1000, and the first row of the breakdown
  is net sales of +1000.
\<close>

theorem single_revenue_row:
  "sales [\<lparr>code = 4000, name = n, debit = 0, credit = 1000, balance = 0 - 1000\<rparr>] = 1000 \<and>
   (\<exists>r b. calculate_ratios
             [\<lparr>code = 4000, name = n, debit = 0, credit = 1000, balance = 0 - 1000\<rparr>]
           = Inr (r, b) \<and> b ! 0 = (''Net sales'', 1000) \<and> Net_sales r = 1000)"
  by (simp add: calculate_ratios_eq breakdown_of_def net_sales_def sales_def discounts_def
      isin_sum_def bal_def sales_codes_def)

subsection \<open>Codes outside every category\<close>

lemma isin_sum_skip:
  "code a \<notin> set codes \<Longrightarrow> isin_sum (xs @ a # ys) codes = isin_sum (xs @ ys) codes"
  by (simp add: isin_sum_def)

lemma bal_skip: "code a \<noteq> c \<Longrightarrow> bal (xs @ a # ys) c = bal (xs @ ys) c"
  by (simp add: bal_def)

text \<open>
  C9. A record whose code is in none of the code lists that the engine reads changes
  nothing: with the record anywhere in the input or without it, the engine returns the
  same ratios and the same breakdown.
\<close>

theorem unknown_code_excluded:
  assumes "code a \<notin> set sales_codes \<union> {4009} \<union> set cogs_codes \<union> set expense_codes
             \<union> {7010, 7011} \<union> {4900} \<union> {7903} \<union> set current_asset_codes
             \<union> set current_liability_codes \<union> {1103} \<union> {1100} \<union> {2100}"
  shows "calculate_ratios (xs @ a # ys) = calculate_ratios (xs @ ys)"
proof -
  have s: "isin_sum (xs @ a # ys) sales_codes = isin_sum (xs @ ys) sales_codes"
    and c: "isin_sum (xs @ a # ys) cogs_codes = isin_sum (xs @ ys) cogs_codes"
    and e: "isin_sum (xs @ a # ys) expense_codes = isin_sum (xs @ ys) expense_codes"
    and w: "isin_sum (xs @ a # ys) [7010, 7011] = isin_sum (xs @ ys) [7010, 7011]"
    and ca: "isin_sum (xs @ a # ys) current_asset_codes = isin_sum (xs @ ys) current_asset_codes"
    and cl: "isin_sum (xs @ a # ys) current_liability_codes
               = isin_sum (xs @ ys) current_liability_codes"
    using assms by (simp_all add: isin_sum_skip)
  have b: "bal (xs @ a # ys) 4009 = bal (xs @ ys) 4009"
    "bal (xs @ a # ys) 4900 = bal (xs @ ys) 4900"
    "bal (xs @ a # ys) 7903 = bal (xs @ ys) 7903"
    "bal (xs @ a # ys) 1103 = bal (xs @ ys) 1103"
    "bal (xs @ a # ys) 1100 = bal (xs @ ys) 1100"
    "bal (xs @ a # ys) 2100 = bal (xs @ ys) 2100"
    using assms by (simp_all add: bal_skip)
  show ?thesis
    unfolding calculate_ratios_eq breakdown_of_def figures s c e w ca cl b ..
qed


text \<open>The mispostings account 9999 of the demo data, next to a sales row.\<close>

theorem unknown_code_excluded_witness:
  "code \<lparr>code = 9999, name = ''Mispostings Account'', debit = (205::rat), credit = 0, balance = 205\<rparr>
     \<notin> set sales_codes \<union> {4009} \<union> set cogs_codes \<union> set expense_codes
             \<union> {7010, 7011} \<union> {4900} \<union> {7903} \<union> set current_asset_codes
             \<union> set current_liability_codes \<union> {1103} \<union> {1100} \<union> {2100} \<and>
   calculate_ratios
     ([\<lparr>code = 4001, name = ''Sales South'', debit = 0, credit = 1230, balance = - 1230\<rparr>]
      @ \<lparr>code = 9999, name = ''Mispostings Account'', debit = (205::rat), credit = 0, balance = 205\<rparr>
      # [])
   = calculate_ratios
     ([\<lparr>code = 4001, name = ''Sales South'', debit = 0, credit = 1230, balance = - 1230\<rparr>]
      @ [])"
proof -
  have h: "code \<lparr>code = 9999, name = ''Mispostings Account'', debit = (205::rat), credit = 0,
                  balance = 205\<rparr>
     \<notin> set sales_codes \<union> {4009} \<union> set cogs_codes \<union> set expense_codes
             \<union> {7010, 7011} \<union> {4900} \<union> {7903} \<union> set current_asset_codes
             \<union> set current_liability_codes \<union> {1103} \<union> {1100} \<union> {2100}"
    by (simp add: code_lists)
  show ?thesis
    using h unknown_code_excluded [OF h,
        of "[\<lparr>code = 4001, name = ''Sales South'', debit = 0, credit = 1230,
               balance = - 1230\<rparr>]" "[]"]
    by simp
qed

section \<open>Properties of the normaliser\<close>

subsection \<open>Substrings, column labels, digit runs\<close>

lemma startswith_iff: "startswith s k \<longleftrightarrow> (\<exists>q. s = k @ q)"
  by (induction s k rule: startswith.induct) auto

lemma str_in_iff: "str_in k s \<longleftrightarrow> (\<exists>p q. s = p @ k @ q)"
proof (induction s)
  case Nil
  then show ?case by auto
next
  case (Cons c cs)
  show ?case
  proof
    assume "str_in k (c # cs)"
    then consider "startswith (c # cs) k" | "str_in k cs" by auto
    then show "\<exists>p q. c # cs = p @ k @ q"
    proof cases
      case 1
      then obtain q where "c # cs = k @ q" by (auto simp: startswith_iff)
      then have "c # cs = [] @ k @ q" by simp
      then show ?thesis by blast
    next
      case 2
      then obtain p q where "cs = p @ k @ q" using Cons.IH by blast
      then have "c # cs = (c # p) @ k @ q" by simp
      then show ?thesis by blast
    qed
  next
    assume "\<exists>p q. c # cs = p @ k @ q"
    then obtain p q where pq: "c # cs = p @ k @ q" by blast
    show "str_in k (c # cs)"
    proof (cases p)
      case Nil
      with pq have "startswith (c # cs) k" by (auto simp: startswith_iff)
      then show ?thesis by simp
    next
      case (Cons a p')
      with pq have "cs = p' @ k @ q" by simp
      then have "str_in k cs" using Cons.IH by blast
      then show ?thesis by simp
    qed
  qed
qed

lemma find_col_None_iff:
  "find_col cs kw = None \<longleftrightarrow> (\<forall>h \<in> set cs. \<not> str_in kw (lower h))"
  by (induction cs) auto

lemma find_col_Some_iff:
  "find_col cs kw = Some c \<longleftrightarrow>
     (\<exists>pre post. cs = pre @ c # post \<and> str_in kw (lower c) \<and>
        (\<forall>h \<in> set pre. \<not> str_in kw (lower h)))"
proof (induction cs)
  case Nil
  then show ?case by simp
next
  case (Cons a cs)
  show ?case
  proof (cases "str_in kw (lower a)")
    case True
    have "(\<exists>pre post. a # cs = pre @ c # post \<and> str_in kw (lower c) \<and>
        (\<forall>h \<in> set pre. \<not> str_in kw (lower h))) \<longleftrightarrow> a = c"
    proof
      assume "\<exists>pre post. a # cs = pre @ c # post \<and> str_in kw (lower c) \<and>
        (\<forall>h \<in> set pre. \<not> str_in kw (lower h))"
      then obtain pre post where e: "a # cs = pre @ c # post"
        and n: "\<forall>h \<in> set pre. \<not> str_in kw (lower h)" by blast
      show "a = c"
      proof (cases pre)
        case Nil
        with e show ?thesis by simp
      next
        case (Cons b pre')
        with e have "b = a" by simp
        with Cons n True show ?thesis by simp
      qed
    next
      assume "a = c"
      then have "a # cs = [] @ c # cs \<and> str_in kw (lower c) \<and>
        (\<forall>h \<in> set []. \<not> str_in kw (lower h))" using True by simp
      then show "\<exists>pre post. a # cs = pre @ c # post \<and> str_in kw (lower c) \<and>
        (\<forall>h \<in> set pre. \<not> str_in kw (lower h))" by blast
    qed
    with True show ?thesis by simp
  next
    case False
    have "(\<exists>pre post. a # cs = pre @ c # post \<and> str_in kw (lower c) \<and>
        (\<forall>h \<in> set pre. \<not> str_in kw (lower h))) \<longleftrightarrow>
          (\<exists>pre post. cs = pre @ c # post \<and> str_in kw (lower c) \<and>
        (\<forall>h \<in> set pre. \<not> str_in kw (lower h)))"
    proof
      assume "\<exists>pre post. a # cs = pre @ c # post \<and> str_in kw (lower c) \<and>
        (\<forall>h \<in> set pre. \<not> str_in kw (lower h))"
      then obtain pre post where e: "a # cs = pre @ c # post" and k: "str_in kw (lower c)"
        and n: "\<forall>h \<in> set pre. \<not> str_in kw (lower h)" by blast
      show "\<exists>pre post. cs = pre @ c # post \<and> str_in kw (lower c) \<and>
        (\<forall>h \<in> set pre. \<not> str_in kw (lower h))"
      proof (cases pre)
        case Nil
        with e k False show ?thesis by simp
      next
        case (Cons b pre')
        with e n have "cs = pre' @ c # post \<and> (\<forall>h \<in> set pre'. \<not> str_in kw (lower h))"
          by simp
        with k show ?thesis by blast
      qed
    next
      assume "\<exists>pre post. cs = pre @ c # post \<and> str_in kw (lower c) \<and>
        (\<forall>h \<in> set pre. \<not> str_in kw (lower h))"
      then obtain pre post where e: "cs = pre @ c # post" and k: "str_in kw (lower c)"
        and n: "\<forall>h \<in> set pre. \<not> str_in kw (lower h)" by blast
      have "a # cs = (a # pre) @ c # post \<and> str_in kw (lower c) \<and>
        (\<forall>h \<in> set (a # pre). \<not> str_in kw (lower h))" using e k n False by simp
      then show "\<exists>pre post. a # cs = pre @ c # post \<and> str_in kw (lower c) \<and>
        (\<forall>h \<in> set pre. \<not> str_in kw (lower h))" by blast
    qed
    with False Cons.IH show ?thesis by simp
  qed
qed

lemma find_col_nonempty: "find_col cs kw = Some c \<Longrightarrow> kw \<noteq> [] \<Longrightarrow> c \<noteq> []"
proof -
  assume f: "find_col cs kw = Some c" and k: "kw \<noteq> []"
  from f have "str_in kw (lower c)" by (auto simp: find_col_Some_iff)
  then obtain p q where "lower c = p @ kw @ q" by (auto simp: str_in_iff)
  with k have "lower c \<noteq> []" by simp
  then show "c \<noteq> []" by (auto simp: lower_def)
qed

lemma py_or_find_col:
  "kw \<noteq> [] \<Longrightarrow> py_or (find_col cs kw) b = (case find_col cs kw of Some c \<Rightarrow> Some c | None \<Rightarrow> b)"
  by (auto simp: py_or_def dest: find_col_nonempty split: option.splits)

lemma py_or_Some: "c \<noteq> [] \<Longrightarrow> py_or (Some c) b = Some c"
  by (simp add: py_or_def)

lemma py_or_None: "py_or None b = b"
  by (simp add: py_or_def)

lemma code_col_eq:
  "code_col df =
     (case find_col (columns df) ''code'' of
        Some c \<Rightarrow> Some c
      | None \<Rightarrow> (case find_col (columns df) ''n/c'' of
                   Some c \<Rightarrow> Some c
                 | None \<Rightarrow> find_col (columns df) ''nominal''))"
proof (cases "find_col (columns df) ''code''")
  case None
  then show ?thesis
    by (simp add: code_col_def py_or_None py_or_find_col)
next
  case (Some c)
  then have "c \<noteq> []" by (auto dest: find_col_nonempty)
  with Some show ?thesis
    by (simp add: code_col_def py_or_Some)
qed


lemma str_extract_Some:
  assumes "str_extract dec s = Some run"
  shows "run \<noteq> [] \<and> (\<forall>ch \<in> set run. is_digit dec ch) \<and>
         (\<exists>p q. s = p @ run @ q \<and> (\<forall>ch \<in> set p. \<not> is_digit dec ch) \<and>
                (q = [] \<or> \<not> is_digit dec (hd q)))"
proof -
  let ?t = "dropWhile (\<lambda>c. \<not> is_digit dec c) s"
  from assms have t: "?t \<noteq> []" and r: "run = takeWhile (is_digit dec) ?t"
    by (auto simp: str_extract_def Let_def split: if_splits)
  from t have "is_digit dec (hd ?t)"
    using hd_dropWhile [of "\<lambda>c. \<not> is_digit dec c" s] by simp
  with t r have 1: "run \<noteq> []" by (simp add: takeWhile_eq_Nil_iff)
  have 2: "\<forall>ch \<in> set run. is_digit dec ch" using r by (auto dest: set_takeWhileD)
  let ?p = "takeWhile (\<lambda>c. \<not> is_digit dec c) s"
  let ?q = "dropWhile (is_digit dec) ?t"
  have "s = ?p @ ?t" by simp
  also have "?t = run @ ?q" using r by simp
  finally have 3: "s = ?p @ run @ ?q" .
  have 4: "\<forall>ch \<in> set ?p. \<not> is_digit dec ch" by (auto dest: set_takeWhileD)
  have 5: "?q = [] \<or> \<not> is_digit dec (hd ?q)"
    using hd_dropWhile [of "is_digit dec" ?t] by blast
  from 1 2 3 4 5 show ?thesis by blast
qed




lemma astype_int_Inr_iff:
  "astype_int dec xs = Inr ys \<longleftrightarrow>
     (\<forall>x \<in> set xs. \<exists>s. x = Some s \<and> int_of_digits dec s \<le> int64_max) \<and>
     ys = map (\<lambda>x. int_of_digits dec (the x)) xs"
proof (cases "\<forall>x \<in> set xs. \<exists>s. x = Some s \<and> int_of_digits dec s \<le> int64_max")
  case True
  then have n: "None \<notin> set xs" by auto
  from True have o: "\<not> list_ex (\<lambda>x. case x of None \<Rightarrow> False
                                   | Some s \<Rightarrow> int64_max < int_of_digits dec s) xs"
    by (fastforce simp: list_ex_iff split: option.splits)
  have m: "map (\<lambda>x. case x of None \<Rightarrow> 0 | Some s \<Rightarrow> int_of_digits dec s) xs
             = map (\<lambda>x. int_of_digits dec (the x)) xs"
    using True by (intro map_cong) auto
  from True n o m show ?thesis by (auto simp: astype_int_def)
next
  case False
  then obtain x where x: "x \<in> set xs"
    and b: "x = None \<or> (\<exists>s. x = Some s \<and> int64_max < int_of_digits dec s)"
    by (metis not_le option.exhaust)
  have "None \<in> set xs \<or> list_ex (\<lambda>x. case x of None \<Rightarrow> False
                                   | Some s \<Rightarrow> int64_max < int_of_digits dec s) xs"
  proof (cases x)
    case None
    with x show ?thesis by simp
  next
    case (Some s)
    with b have "int64_max < int_of_digits dec s" by simp
    with x Some have "list_ex (\<lambda>x. case x of None \<Rightarrow> False
                                   | Some s \<Rightarrow> int64_max < int_of_digits dec s) xs"
      unfolding list_ex_iff by (intro bexI [of _ "Some s"]) simp_all
    then show ?thesis by simp
  qed
  with False show ?thesis by (auto simp: astype_int_def)
qed

subsection \<open>Failure and success of normalisation\<close>

lemma length_data_frame:
  "length ns = length cs \<Longrightarrow> length ds = length cs \<Longrightarrow> length ks = length cs \<Longrightarrow>
   length bs = length cs \<Longrightarrow> length (data_frame cs ns ds ks bs) = length cs"
  by (induction cs ns ds ks bs rule: data_frame.induct) auto

lemma nth_data_frame:
  "length ns = length cs \<Longrightarrow> length ds = length cs \<Longrightarrow> length ks = length cs \<Longrightarrow>
   length bs = length cs \<Longrightarrow> i < length cs \<Longrightarrow>
   data_frame cs ns ds ks bs ! i =
     \<lparr>code = cs ! i, name = ns ! i, debit = ds ! i, credit = ks ! i, balance = bs ! i\<rparr>"
proof (induction cs ns ds ks bs arbitrary: i rule: data_frame.induct)
  case (1 c cs n ns d ds k ks b bs)
  then show ?case by (cases i) auto
qed auto

lemma length_column_sub: "length ks = length ds \<Longrightarrow> length (column_sub ds ks) = length ds"
  by (simp add: column_sub_def)

lemma nth_column_sub:
  "length ks = length ds \<Longrightarrow> i < length ds \<Longrightarrow> column_sub ds ks ! i = ds ! i - ks ! i"
  by (simp add: column_sub_def)

lemma data_frame_balanced:
  assumes "length ns = length cs" "length ds = length cs" "length ks = length cs"
    and "a \<in> set (data_frame cs ns ds ks (column_sub ds ks))"
  shows "balance a = debit a - credit a"
proof -
  have l: "length (column_sub ds ks) = length cs" using assms by (simp add: length_column_sub)
  from assms(4) obtain i where i: "i < length (data_frame cs ns ds ks (column_sub ds ks))"
    and a: "a = data_frame cs ns ds ks (column_sub ds ks) ! i"
    by (auto simp: in_set_conv_nth)
  from i have i': "i < length cs" using assms l by (simp add: length_data_frame)
  then have "a = \<lparr>code = cs ! i, name = ns ! i, debit = ds ! i, credit = ks ! i,
                  balance = column_sub ds ks ! i\<rparr>"
    using a assms l by (simp add: nth_data_frame)
  moreover have "column_sub ds ks ! i = ds ! i - ks ! i"
    using i' assms by (simp add: nth_column_sub)
  ultimately show ?thesis by simp
qed

lemma normalise_missing:
  "code_col df = None \<or> name_col df = None \<or> debit_col df = None \<or> credit_col df = None \<Longrightarrow>
   normalise_tb_columns dec df = Inl ValueError"
  by (auto simp: normalise_tb_columns_def)

lemma normalise_resolved:
  assumes "code_col df = Some cc" "name_col df = Some nc" "debit_col df = Some dc"
    "credit_col df = Some kc"
  shows "normalise_tb_columns dec df =
     and_then (astype_int dec (map (\<lambda>c. str_extract dec (as_str c)) (column df cc)))
       (\<lambda>codes. Inr (data_frame codes (map as_str (column df nc))
                        (to_numeric_fillna (column df dc)) (to_numeric_fillna (column df kc))
                        (column_sub (to_numeric_fillna (column df dc))
                           (to_numeric_fillna (column df kc)))))"
  using assms by (simp add: normalise_tb_columns_def Let_def)

lemma normalise_Inr_iff:
  assumes "code_col df = Some cc" "name_col df = Some nc" "debit_col df = Some dc"
    "credit_col df = Some kc"
  shows "normalise_tb_columns dec df = Inr out \<longleftrightarrow>
     (\<forall>r \<in> set (rows df). \<exists>run. str_extract dec (as_str (r cc)) = Some run \<and>
                                  int_of_digits dec run \<le> int64_max) \<and>
     out = data_frame (map (\<lambda>r. int_of_digits dec (the (str_extract dec (as_str (r cc))))) (rows df))
             (map as_str (column df nc))
             (to_numeric_fillna (column df dc)) (to_numeric_fillna (column df kc))
             (column_sub (to_numeric_fillna (column df dc)) (to_numeric_fillna (column df kc)))"
proof (cases "astype_int dec (map (\<lambda>c. str_extract dec (as_str c)) (column df cc))")
  case (Inl e)
  then have "\<not> (\<forall>x \<in> set (map (\<lambda>c. str_extract dec (as_str c)) (column df cc)).
                 \<exists>s. x = Some s \<and> int_of_digits dec s \<le> int64_max)"
    using astype_int_Inr_iff [of dec "map (\<lambda>c. str_extract dec (as_str c)) (column df cc)"] by auto
  then have "\<not> (\<forall>r \<in> set (rows df). \<exists>run. str_extract dec (as_str (r cc)) = Some run \<and>
                                  int_of_digits dec run \<le> int64_max)"
    by (auto simp: column_def)
  with Inl show ?thesis
    by (simp add: normalise_resolved [OF assms] and_then_def)
next
  case (Inr codes)
  then have a: "\<forall>x \<in> set (map (\<lambda>c. str_extract dec (as_str c)) (column df cc)).
                 \<exists>s. x = Some s \<and> int_of_digits dec s \<le> int64_max"
    and c: "codes = map (\<lambda>x. int_of_digits dec (the x)) (map (\<lambda>c. str_extract dec (as_str c)) (column df cc))"
    by (simp_all add: astype_int_Inr_iff)
  from a have a': "\<forall>r \<in> set (rows df). \<exists>run. str_extract dec (as_str (r cc)) = Some run \<and>
                                  int_of_digits dec run \<le> int64_max"
    by (auto simp: column_def)
  from c have c': "codes = map (\<lambda>r. int_of_digits dec (the (str_extract dec (as_str (r cc))))) (rows df)"
    by (simp add: column_def comp_def)
  from Inr a' c' show ?thesis
    by (auto simp: normalise_resolved [OF assms] and_then_def)
qed

lemma normalise_length:
  assumes "normalise_tb_columns dec df = Inr out"
  shows "length out = length (rows df)"
proof -
  have "\<not> (code_col df = None \<or> name_col df = None \<or> debit_col df = None \<or>
           credit_col df = None)"
  proof
    assume "code_col df = None \<or> name_col df = None \<or> debit_col df = None \<or>
           credit_col df = None"
    then have "normalise_tb_columns dec df = Inl ValueError" by (rule normalise_missing)
    with assms show False by simp
  qed
  then obtain cc nc dc kc where r: "code_col df = Some cc" "name_col df = Some nc"
    "debit_col df = Some dc" "credit_col df = Some kc" by auto
  from assms show ?thesis
    unfolding normalise_Inr_iff [OF r]
    by (simp add: length_data_frame length_column_sub to_numeric_fillna_def column_def)
qed






lemmas discovery = code_col_def name_col_def debit_col_def credit_col_def py_or_def
  lower_def lower_char_def

lemmas digits = str_extract_def is_digit_def int_of_digits_def digit_value_def int64_max_def
  astype_int_def ascii_decimal_def

lemma upload_lenient_cols:
  "code_col upload_lenient = Some ''Nominal Code''"
  "name_col upload_lenient = Some ''Account Name''"
  "debit_col upload_lenient = Some ''Debit''"
  "credit_col upload_lenient = Some ''Credit''"
  by (simp_all add: upload_lenient_def discovery)

lemma upload_lenient_rows:
  "\<forall>r \<in> set (rows upload_lenient).
     \<exists>run. str_extract ascii_decimal (as_str (r ''Nominal Code'')) = Some run \<and> int_of_digits ascii_decimal run \<le> int64_max"
  by (simp add: upload_lenient_def row_of_def digits)

lemma upload_lenient_out:
  "normalise_tb_columns ascii_decimal upload_lenient =
     Inr [\<lparr>code = 4000, name = ''Sales North'', debit = 0, credit = 1000, balance = - 1000\<rparr>,
          \<lparr>code = 7100, name = ''Rent'', debit = 15750, credit = 0, balance = 15750\<rparr>]"
  unfolding normalise_resolved [OF upload_lenient_cols]
  by (simp add: column_def and_then_def to_numeric_fillna_def column_sub_def
      upload_lenient_def row_of_def digits)



lemma upload_then_cols:
  "code_col upload_long_code_then_no_digits = Some ''Code''"
  "name_col upload_long_code_then_no_digits = Some ''Name''"
  "debit_col upload_long_code_then_no_digits = Some ''Debit''"
  "credit_col upload_long_code_then_no_digits = Some ''Credit''"
  by (simp_all add: upload_long_code_then_no_digits_def discovery)

lemma upload_fullwidth_cols:
  "code_col upload_fullwidth = Some ''Code''"
  "name_col upload_fullwidth = Some ''Name''"
  "debit_col upload_fullwidth = Some ''Debit''"
  "credit_col upload_fullwidth = Some ''Credit''"
  by (simp_all add: upload_fullwidth_def discovery)

text \<open>
  A code cell in full-width digits is read as the number its digits denote, and a cell
  without a digit below a cell of \<open>2 ^ 63\<close> makes the failure a \<^verbatim>\<open>ValueError\<close>.
\<close>

lemma upload_fullwidth_out:
  "normalise_tb_columns fullwidth_decimal upload_fullwidth =
     Inr [\<lparr>code = 4000, name = [83, 97, 108, 101, 115], debit = 0, credit = 1000,
           balance = - 1000\<rparr>]"
  unfolding normalise_resolved [OF upload_fullwidth_cols]
  by (simp add: column_def and_then_def to_numeric_fillna_def column_sub_def astype_int_def
      upload_fullwidth_def row_of_def str_extract_def is_digit_def int_of_digits_def
      digit_value_def int64_max_def fullwidth_decimal_def)

lemma upload_then_out:
  "normalise_tb_columns ascii_decimal upload_long_code_then_no_digits = Inl ValueError"
  unfolding normalise_resolved [OF upload_then_cols]
  by (simp add: column_def and_then_def astype_int_def upload_long_code_then_no_digits_def
      row_of_def digits)



subsection \<open>Column discovery\<close>

text \<open>
  C5. \<^verbatim>\<open>find_col\<close> returns the first label, in column order, whose lower-cased text
  contains the keyword as a substring, and nothing when no label does. The code column
  is the match for \<^verbatim>\<open>code\<close> if there is one, else the match for \<^verbatim>\<open>n/c\<close>, else the
  match for \<^verbatim>\<open>nominal\<close>; name, debit and credit are the matches for their keywords.
  The headings \<^verbatim>\<open>Code\<close>, \<^verbatim>\<open>CODE\<close> and \<^verbatim>\<open>N/C\<close> each resolve to the code column.
\<close>

theorem column_discovery:
  "(find_col cs kw = Some c \<longleftrightarrow>
      (\<exists>pre post. cs = pre @ c # post \<and> (\<exists>p q. lower c = p @ kw @ q) \<and>
         (\<forall>h \<in> set pre. \<not> (\<exists>p q. lower h = p @ kw @ q)))) \<and>
   (find_col cs kw = None \<longleftrightarrow> (\<forall>h \<in> set cs. \<not> (\<exists>p q. lower h = p @ kw @ q))) \<and>
   code_col df =
     (case find_col (columns df) ''code'' of
        Some c \<Rightarrow> Some c
      | None \<Rightarrow> (case find_col (columns df) ''n/c'' of
                   Some c \<Rightarrow> Some c
                 | None \<Rightarrow> find_col (columns df) ''nominal'')) \<and>
   name_col df = find_col (columns df) ''name'' \<and>
   debit_col df = find_col (columns df) ''debit'' \<and>
   credit_col df = find_col (columns df) ''credit'' \<and>
   code_col \<lparr>columns = [''Code'', ''Name'', ''Debit'', ''Credit''], rows = rs\<rparr> = Some ''Code'' \<and>
   code_col \<lparr>columns = [''CODE'', ''NAME'', ''DEBIT'', ''CREDIT''], rows = rs\<rparr> = Some ''CODE'' \<and>
   code_col \<lparr>columns = [''N/C'', ''Name'', ''Debit'', ''Credit''], rows = rs\<rparr> = Some ''N/C''"
proof -
  have 1: "find_col cs kw = Some c \<longleftrightarrow>
      (\<exists>pre post. cs = pre @ c # post \<and> (\<exists>p q. lower c = p @ kw @ q) \<and>
         (\<forall>h \<in> set pre. \<not> (\<exists>p q. lower h = p @ kw @ q)))"
    unfolding str_in_iff [symmetric] by (rule find_col_Some_iff)
  have 2: "find_col cs kw = None \<longleftrightarrow> (\<forall>h \<in> set cs. \<not> (\<exists>p q. lower h = p @ kw @ q))"
    unfolding str_in_iff [symmetric] by (rule find_col_None_iff)
  have 3: "code_col \<lparr>columns = [''Code'', ''Name'', ''Debit'', ''Credit''], rows = rs\<rparr> = Some ''Code''"
    "code_col \<lparr>columns = [''CODE'', ''NAME'', ''DEBIT'', ''CREDIT''], rows = rs\<rparr> = Some ''CODE''"
    "code_col \<lparr>columns = [''N/C'', ''Name'', ''Debit'', ''Credit''], rows = rs\<rparr> = Some ''N/C''"
    by (simp_all add: discovery)
  from 1 2 3 code_col_eq [of df] show ?thesis
    by (simp only: name_col_def debit_col_def credit_col_def simp_thms)
qed

text \<open>
  \<^verbatim>\<open>Nominal Code\<close> is the first of four labels to contain \<^verbatim>\<open>code\<close>; the earlier label
  \<^verbatim>\<open>Nominal\<close> matches only the last fallback and loses.
\<close>

theorem column_discovery_witness:
  "find_col [''Nominal'', ''Account Name'', ''Nominal Code'', ''Code 2''] ''code''
     = Some ''Nominal Code'' \<and>
   (\<exists>pre post. [''Nominal'', ''Account Name'', ''Nominal Code'', ''Code 2'']
        = pre @ ''Nominal Code'' # post \<and>
      (\<exists>p q. lower ''Nominal Code'' = p @ ''code'' @ q) \<and>
      (\<forall>h \<in> set pre. \<not> (\<exists>p q. lower h = p @ ''code'' @ q))) \<and>
   code_col upload_lenient = Some ''Nominal Code'' \<and>
   code_col upload_headings = Some ''N/C''"
proof -
  have f: "find_col [''Nominal'', ''Account Name'', ''Nominal Code'', ''Code 2''] ''code''
     = Some ''Nominal Code''"
    by (simp add: lower_def lower_char_def)
  have c: "code_col upload_lenient = Some ''Nominal Code''" "code_col upload_headings = Some ''N/C''"
    by (simp_all add: upload_lenient_def upload_headings_def discovery)
  from f c column_discovery [of "[''Nominal'', ''Account Name'', ''Nominal Code'', ''Code 2'']"
      "''code''" "''Nominal Code''" upload_lenient "[]"]
  show ?thesis by blast
qed

subsection \<open>Lenient coercion of debit and credit\<close>

text \<open>
  C6. When the four headings resolve and every code cell yields an integer, normalisation
  succeeds with one record for every row, whatever the debit and credit cells hold: a
  debit or credit cell that does not parse as a number becomes 0, and one that parses
  keeps its value.
\<close>

theorem lenient_coercion:
  assumes "code_col df = Some cc" "name_col df = Some nc" "debit_col df = Some dc"
    "credit_col df = Some kc"
    and "\<forall>r \<in> set (rows df). \<exists>run. str_extract dec (as_str (r cc)) = Some run \<and>
                                    int_of_digits dec run \<le> int64_max"
  shows "\<exists>out. normalise_tb_columns dec df = Inr out \<and> length out = length (rows df) \<and>
     (\<forall>i < length (rows df).
        debit (out ! i) = (case as_num ((rows df ! i) dc) of None \<Rightarrow> 0 | Some v \<Rightarrow> v) \<and>
        credit (out ! i) = (case as_num ((rows df ! i) kc) of None \<Rightarrow> 0 | Some v \<Rightarrow> v))"
proof -
  let ?out = "data_frame (map (\<lambda>r. int_of_digits dec (the (str_extract dec (as_str (r cc))))) (rows df))
             (map as_str (column df nc))
             (to_numeric_fillna (column df dc)) (to_numeric_fillna (column df kc))
             (column_sub (to_numeric_fillna (column df dc)) (to_numeric_fillna (column df kc)))"
  have n: "normalise_tb_columns dec df = Inr ?out"
    using assms(5) by (simp add: normalise_Inr_iff [OF assms(1-4)])
  then have l: "length ?out = length (rows df)" by (rule normalise_length)
  have "debit (?out ! i) = (case as_num ((rows df ! i) dc) of None \<Rightarrow> 0 | Some v \<Rightarrow> v) \<and>
        credit (?out ! i) = (case as_num ((rows df ! i) kc) of None \<Rightarrow> 0 | Some v \<Rightarrow> v)"
    if "i < length (rows df)" for i
    using that
    by (simp add: nth_data_frame length_column_sub to_numeric_fillna_def column_def)
  with n l show ?thesis by blast
qed

text \<open>The debit \<^verbatim>\<open>n/a\<close> and the credit \<^verbatim>\<open>-\<close> of the second example table become 0.\<close>

theorem lenient_coercion_witness:
  "code_col upload_lenient = Some ''Nominal Code'' \<and>
   name_col upload_lenient = Some ''Account Name'' \<and>
   debit_col upload_lenient = Some ''Debit'' \<and>
   credit_col upload_lenient = Some ''Credit'' \<and>
   as_num ((rows upload_lenient ! 0) ''Debit'') = None \<and>
   as_num ((rows upload_lenient ! 1) ''Credit'') = None \<and>
   (\<exists>out. normalise_tb_columns ascii_decimal upload_lenient = Inr out \<and> length out = 2 \<and>
      debit (out ! 0) = 0 \<and> credit (out ! 0) = 1000 \<and>
      debit (out ! 1) = 15750 \<and> credit (out ! 1) = 0)"
proof -
  have c: "as_num ((rows upload_lenient ! 0) ''Debit'') = None"
    "as_num ((rows upload_lenient ! 1) ''Credit'') = None"
    "as_num ((rows upload_lenient ! 0) ''Credit'') = Some 1000"
    "as_num ((rows upload_lenient ! 1) ''Debit'') = Some 15750"
    "length (rows upload_lenient) = 2"
    by (simp_all add: upload_lenient_def row_of_def)
  from lenient_coercion [OF upload_lenient_cols upload_lenient_rows]
  obtain out where o: "normalise_tb_columns ascii_decimal upload_lenient = Inr out"
    "length out = length (rows upload_lenient)"
    "\<forall>i < length (rows upload_lenient).
        debit (out ! i) = (case as_num ((rows upload_lenient ! i) ''Debit'') of
                             None \<Rightarrow> 0 | Some v \<Rightarrow> v) \<and>
        credit (out ! i) = (case as_num ((rows upload_lenient ! i) ''Credit'') of
                              None \<Rightarrow> 0 | Some v \<Rightarrow> v)"
    by blast
  from o(3) [rule_format, of 0] o(3) [rule_format, of 1] c
  have "debit (out ! 0) = 0 \<and> credit (out ! 0) = 1000 \<and>
      debit (out ! 1) = 15750 \<and> credit (out ! 1) = 0"
    by simp
  with o(1,2) c upload_lenient_cols show ?thesis by simp
qed

subsection \<open>The balance invariant\<close>

lemma demo_balanced:
  "a \<in> set load_demo_trial_balance \<Longrightarrow> balance a = debit a - credit a"
proof -
  assume "a \<in> set load_demo_trial_balance"
  then have "a \<in> set (data_frame (map (\<lambda>(c, n, d, k). c) data) (map (\<lambda>(c, n, d, k). n) data)
      (map (\<lambda>(c, n, d, k). d) data) (map (\<lambda>(c, n, d, k). k) data)
      (column_sub (map (\<lambda>(c, n, d, k). d) data) (map (\<lambda>(c, n, d, k). k) data)))"
    by (simp add: load_demo_trial_balance_def Let_def)
  moreover have "length (map (\<lambda>(c, n, d, k). n) data) = length (map (\<lambda>(c, n, d, k). c) data)"
    "length (map (\<lambda>(c, n, d, k). d) data) = length (map (\<lambda>(c, n, d, k). c) data)"
    "length (map (\<lambda>(c, n, d, k). k) data) = length (map (\<lambda>(c, n, d, k). c) data)"
    by (simp_all only: length_map)
  ultimately show ?thesis
    using data_frame_balanced by blast
qed

text \<open>
  C7. Every record that normalisation returns, and every row of the demo trial balance,
  has \<open>balance = debit - credit\<close>: the balance column is computed from the other two.
\<close>

theorem balance_invariant:
  "(\<forall>out. normalise_tb_columns dec df = Inr out \<longrightarrow>
      (\<forall>a \<in> set out. balance a = debit a - credit a)) \<and>
   (\<forall>a \<in> set load_demo_trial_balance. balance a = debit a - credit a)"
proof (intro conjI allI impI ballI)
  fix a
  assume "a \<in> set load_demo_trial_balance"
  then show "balance a = debit a - credit a" by (rule demo_balanced)
next
  fix out a
  assume n: "normalise_tb_columns dec df = Inr out" and a: "a \<in> set out"
  have "\<not> (code_col df = None \<or> name_col df = None \<or> debit_col df = None \<or>
           credit_col df = None)"
  proof
    assume "code_col df = None \<or> name_col df = None \<or> debit_col df = None \<or>
           credit_col df = None"
    then have "normalise_tb_columns dec df = Inl ValueError" by (rule normalise_missing)
    with n show False by simp
  qed
  then obtain cc nc dc kc where r: "code_col df = Some cc" "name_col df = Some nc"
    "debit_col df = Some dc" "credit_col df = Some kc" by auto
  from n have o: "out = data_frame (map (\<lambda>r. int_of_digits dec (the (str_extract dec (as_str (r cc))))) (rows df))
             (map as_str (column df nc))
             (to_numeric_fillna (column df dc)) (to_numeric_fillna (column df kc))
             (column_sub (to_numeric_fillna (column df dc)) (to_numeric_fillna (column df kc)))"
    by (simp add: normalise_Inr_iff [OF r])
  show "balance a = debit a - credit a"
    using a unfolding o
    by (rule data_frame_balanced [rotated 3])
       (simp_all add: to_numeric_fillna_def column_def)
qed

text \<open>The records of the second example table, and the first row of the demo data.\<close>

theorem balance_invariant_witness:
  "normalise_tb_columns ascii_decimal upload_lenient =
     Inr [\<lparr>code = 4000, name = ''Sales North'', debit = 0, credit = 1000, balance = - 1000\<rparr>,
          \<lparr>code = 7100, name = ''Rent'', debit = 15750, credit = 0, balance = 15750\<rparr>] \<and>
   balance \<lparr>code = 7100, name = ''Rent'', debit = (15750::rat), credit = 0, balance = 15750\<rparr>
     = debit \<lparr>code = 7100, name = ''Rent'', debit = (15750::rat), credit = 0, balance = 15750\<rparr>
       - credit \<lparr>code = 7100, name = ''Rent'', debit = (15750::rat), credit = 0, balance = 15750\<rparr> \<and>
   hd load_demo_trial_balance \<in> set load_demo_trial_balance \<and>
   balance (hd load_demo_trial_balance)
     = debit (hd load_demo_trial_balance) - credit (hd load_demo_trial_balance)"
proof -
  have m: "hd load_demo_trial_balance \<in> set load_demo_trial_balance"
    using demo_rows_length by (intro hd_in_set) auto
  from balance_invariant [of ascii_decimal upload_lenient] upload_lenient_out m
  show ?thesis by simp
qed

subsection \<open>A table without data rows\<close>

lemma empty_figures:
  "isin_sum [] codes = 0" "bal [] c = 0"
  by (simp_all add: isin_sum_def bal_def)

text \<open>
  C10. For a table whose four headings resolve and which has no data row, normalisation
  returns the empty record set, and on it the engine raises nothing: the seven monetary
  figures are 0 and the seven quotients are \<open>None\<close>.
\<close>

theorem empty_table:
  assumes "code_col df \<noteq> None" "name_col df \<noteq> None" "debit_col df \<noteq> None"
    "credit_col df \<noteq> None" "rows df = []"
  shows "normalise_tb_columns dec df = Inr [] \<and>
     calculate_ratios [] =
       Inr (\<lparr>Net_sales = 0, Gross_profit = 0, Gross_margin = None,
             Operating_profit = 0, Operating_margin = None,
             Profit_before_tax = 0, Net_margin = None,
             Current_assets = 0, Current_liabilities = 0, Working_capital = 0,
             Current_ratio = None, Quick_ratio = None,
             Receivables_days = None, Payables_days = None\<rparr>,
            [(''Net sales'', 0), (''Cost of sales'', 0), (''Gross profit'', 0),
             (''Operating expenses'', 0), (''Operating profit'', 0),
             (''Finance cost'', 0), (''Profit before tax'', 0)])"
proof
  from assms obtain cc nc dc kc where r: "code_col df = Some cc" "name_col df = Some nc"
    "debit_col df = Some dc" "credit_col df = Some kc" by auto
  show "normalise_tb_columns dec df = Inr []"
    using assms(5) by (simp add: normalise_Inr_iff [OF r] column_def to_numeric_fillna_def
        column_sub_def)
next
  show "calculate_ratios [] =
       Inr (\<lparr>Net_sales = 0, Gross_profit = 0, Gross_margin = None,
             Operating_profit = 0, Operating_margin = None,
             Profit_before_tax = 0, Net_margin = None,
             Current_assets = 0, Current_liabilities = 0, Working_capital = 0,
             Current_ratio = None, Quick_ratio = None,
             Receivables_days = None, Payables_days = None\<rparr>,
            [(''Net sales'', 0), (''Cost of sales'', 0), (''Gross profit'', 0),
             (''Operating expenses'', 0), (''Operating profit'', 0),
             (''Finance cost'', 0), (''Profit before tax'', 0)])"
    by (simp add: calculate_ratios_eq breakdown_of_def figures empty_figures)
qed

text \<open>The first example table: four headings, the code column under \<^verbatim>\<open>N/C\<close>.\<close>

theorem empty_table_witness:
  "code_col upload_headings \<noteq> None \<and> name_col upload_headings \<noteq> None \<and>
   debit_col upload_headings \<noteq> None \<and> credit_col upload_headings \<noteq> None \<and>
   rows upload_headings = [] \<and>
   normalise_tb_columns ascii_decimal upload_headings = Inr [] \<and>
   calculate_ratios [] =
       Inr (\<lparr>Net_sales = 0, Gross_profit = 0, Gross_margin = None,
             Operating_profit = 0, Operating_margin = None,
             Profit_before_tax = 0, Net_margin = None,
             Current_assets = 0, Current_liabilities = 0, Working_capital = 0,
             Current_ratio = None, Quick_ratio = None,
             Receivables_days = None, Payables_days = None\<rparr>,
            [(''Net sales'', 0), (''Cost of sales'', 0), (''Gross profit'', 0),
             (''Operating expenses'', 0), (''Operating profit'', 0),
             (''Finance cost'', 0), (''Profit before tax'', 0)])"
proof -
  have h: "code_col upload_headings \<noteq> None" "name_col upload_headings \<noteq> None"
    "debit_col upload_headings \<noteq> None" "credit_col upload_headings \<noteq> None"
    "rows upload_headings = []"
    by (simp_all add: upload_headings_def discovery)
  from h empty_table [OF h] show ?thesis by simp
qed

end
